theory Spec2Isabelle
  imports Main "HOL-Library.Stream"
begin

section \<open>The environment of eggLogic.py\<close>

text \<open>
  The module \<^verbatim>\<open>src/utilities/eggLogic.py\<close> reads two things from outside: Python's
  module-level pseudo-random generator and the wall clock. Both are explicit here.

  The random source is the stream of raw outcomes of the generator, one element for
  each request; a request for a number below \<open>n\<close> reduces the raw outcome modulo
  \<open>n\<close>, so every value of \<open>{0..<n}\<close> can come out and nothing else. A seeded generator
  is one fixed stream. The clock is the stream of the values that
  \<^verbatim>\<open>int(time.time() * 1000)\<close> takes at the successive readings.

  Python integers are unbounded: \<open>int\<close>. The exceptions the module can run into are
  values of \<open>error\<close>, and a function that can raise returns \<open>error + 'a\<close>.
  The \<^verbatim>\<open>print\<close> calls write to standard output only and are left out.
\<close>

datatype error = ValueError | TypeError | IndexError

type_synonym rng = "nat stream"

type_synonym clock = "int stream"

definition randbelow :: "nat \<Rightarrow> rng \<Rightarrow> nat \<times> rng" where
  "randbelow n g = (shd g mod n, stl g)"

text \<open>\<^verbatim>\<open>random.randrange(start, stop, step)\<close>: an element of \<^verbatim>\<open>range(start, stop, step)\<close>,
  \<^verbatim>\<open>ValueError\<close> when the step is zero or the range is empty.\<close>

definition randrange :: "int \<Rightarrow> int \<Rightarrow> int \<Rightarrow> rng \<Rightarrow> error + (int \<times> rng)" where
  "randrange start stop step g =
     (let width = stop - start in
      if step = 0 then Inl ValueError
      else
        (let n = (if 0 < step then (width + step - 1) div step
                  else (width + step + 1) div step) in
         if n \<le> 0 then Inl ValueError
         else (case randbelow (nat n) g of (k, g') \<Rightarrow> Inr (start + step * int k, g'))))"

text \<open>\<^verbatim>\<open>random.randint(a, b)\<close> is \<^verbatim>\<open>randrange(a, b + 1)\<close>.\<close>

definition randint :: "int \<Rightarrow> int \<Rightarrow> rng \<Rightarrow> error + (int \<times> rng)" where
  "randint a b g = randrange a (b + 1) 1 g"

text \<open>\<^verbatim>\<open>random.choice(seq)\<close>: \<^verbatim>\<open>IndexError\<close> on an empty sequence.\<close>

definition choice :: "'a list \<Rightarrow> rng \<Rightarrow> error + ('a \<times> rng)" where
  "choice seq g =
     (if seq = [] then Inl IndexError
      else (case randbelow (length seq) g of (k, g') \<Rightarrow> Inr (seq ! k, g')))"

section \<open>The data\<close>

text \<open>
  A catalog member is an enumeration member: \<^verbatim>\<open>member.name\<close> is the species identifier
  (the code reads it through \<^verbatim>\<open>int(...)\<close> only, so it is an integer here) and
  \<^verbatim>\<open>member.value\<close> is a dictionary with the keys \<^verbatim>\<open>name\<close> and \<^verbatim>\<open>isEgg\<close>, the latter
  \<^verbatim>\<open>None\<close> or a dictionary with the key \<^verbatim>\<open>eggType\<close>.
\<close>

record egg_info =
  eggType :: int

record species_value =
  name :: string
  isEgg :: "egg_info option"

record member =
  member_name :: int
  member_value :: species_value

text \<open>
  An egg is the dictionary \<^verbatim>\<open>constructEggs\<close> builds. The keys \<^verbatim>\<open>species\<close> and
  \<^verbatim>\<open>tier\<close> are assigned on some paths only, so they are optional fields.
\<close>

record egg =
  egg_id :: int
  egg_gachaType :: int
  egg_hatchWaves :: int
  egg_timestamp :: int
  egg_isShiny :: bool
  egg_variantTier :: int
  egg_sourceType :: int
  egg_species :: "int option"
  egg_tier :: "int option"

section \<open>Identifier ranges and identifiers\<close>

definition EGG_SEED :: int where
  "EGG_SEED = 1073741824"

definition getIDBoundarys :: "int \<Rightarrow> int \<times> int" where
  "getIDBoundarys tier =
     (let start = tier * EGG_SEED;
          end' = (tier + 1) * EGG_SEED - 1
      in (max start 255, end'))"

definition generateRandomID :: "int \<Rightarrow> int \<Rightarrow> bool \<Rightarrow> rng \<Rightarrow> error + (int \<times> rng)" where
  "generateRandomID start end' manaphy g =
     (if manaphy then
        randrange (start div 204 * 204) ((end' div 204 + 1) * 204) 204 g
      else
        (case randint start end' g of
           Inl e \<Rightarrow> Inl e
         | Inr (result, g') \<Rightarrow>
             (let result' = (if result mod 204 = 0 then result - 1 else result)
              in Inr (max result' 1, g'))))"

section \<open>The species matcher\<close>

text \<open>\<^verbatim>\<open>str.lower()\<close> on the ASCII letters, which catalog names consist of.\<close>

definition lower_char :: "char \<Rightarrow> char" where
  "lower_char ch =
     (let n = (of_char ch :: nat) in
      if 65 \<le> n \<and> n \<le> 90 then char_of (n + 32) else ch)"

definition lower :: "string \<Rightarrow> string" where
  "lower s = map lower_char s"

fun starts_with :: "string \<Rightarrow> string \<Rightarrow> bool" where
  "starts_with [] s = True"
| "starts_with (p # ps) [] = False"
| "starts_with (p # ps) (ch # s) = (p = ch \<and> starts_with ps s)"

text \<open>\<^verbatim>\<open>substring in s\<close>.\<close>

fun contains :: "string \<Rightarrow> string \<Rightarrow> bool" where
  "contains sub [] = (sub = [])"
| "contains sub (ch # s) = (starts_with sub (ch # s) \<or> contains sub s)"

definition regionalSubstrings :: "string list" where
  "regionalSubstrings = [''alola_'', ''galar_'', ''hisui_'', ''paldea_'']"

definition paradoxIDs :: "int list" where
  "paradoxIDs = [984, 985, 986, 987, 988, 989, 990, 991, 992, 993, 994, 995,
                 1005, 1006, 1009, 1010, 1020, 1021, 1022, 1023]"

text \<open>The body of the matcher's loop: whether \<open>m\<close> is appended to \<^verbatim>\<open>speciesMatch\<close>.\<close>

definition speciesMatches :: "int \<Rightarrow> member \<Rightarrow> bool" where
  "speciesMatches tier m =
     (case isEgg (member_value m) of
        None \<Rightarrow> False
      | Some info \<Rightarrow>
          if tier = 6 then
            list_ex (\<lambda>substring. contains substring (lower (name (member_value m))))
              regionalSubstrings
          else if tier = 7 then
            paradoxIDs \<noteq> [] \<and> member_name m \<in> set paradoxIDs
          else eggType info = tier)"

text \<open>
  \<^verbatim>\<open>__getRandomSpeciesForShiny\<close>. The result \<^verbatim>\<open>None\<close> is \<open>None\<close>, the pair
  \<^verbatim>\<open>(rnd.name, rnd.value["isEgg"]["eggType"])\<close> is \<open>Some\<close>; subscripting an \<^verbatim>\<open>isEgg\<close>
  that is \<^verbatim>\<open>None\<close> would raise \<^verbatim>\<open>TypeError\<close>.
\<close>

definition getRandomSpeciesForShiny ::
  "int \<Rightarrow> member list \<Rightarrow> rng \<Rightarrow> error + ((int \<times> int) option \<times> rng)" where
  "getRandomSpeciesForShiny tier eggTypesData g =
     (let speciesMatch = filter (speciesMatches tier) eggTypesData in
      if speciesMatch = [] then Inr (None, g)
      else
        (case choice speciesMatch g of
           Inl e \<Rightarrow> Inl e
         | Inr (rnd, g') \<Rightarrow>
             (case isEgg (member_value rnd) of
                None \<Rightarrow> Inl TypeError
              | Some info \<Rightarrow> Inr (Some (member_name rnd, eggType info), g'))))"

section \<open>The batch constructor\<close>

text \<open>
  One iteration of the loop of \<^verbatim>\<open>constructEggs\<close>: the egg it appends, and the random
  source and the clock after it. Unpacking the matcher's \<^verbatim>\<open>None\<close> into
  \<^verbatim>\<open>speciesID, speciesEggType\<close> raises \<^verbatim>\<open>TypeError\<close>. After a successful unpacking
  \<^verbatim>\<open>speciesID\<close> is a member's name, so the test \<^verbatim>\<open>speciesID is not None\<close> holds and
  both \<^verbatim>\<open>species\<close> and \<^verbatim>\<open>tier\<close> are assigned.
\<close>

definition eggBody ::
  "int \<Rightarrow> int \<Rightarrow> int \<Rightarrow> member list \<Rightarrow> bool \<Rightarrow> int \<Rightarrow> int \<Rightarrow> int \<Rightarrow> bool \<Rightarrow>
   rng \<Rightarrow> clock \<Rightarrow> error + (egg \<times> rng \<times> clock)" where
  "eggBody tier gachaType hatchWaveCount eggTypesData isShiny variantTier start end' isManaphy g c =
     (case generateRandomID start end' isManaphy g of
        Inl e \<Rightarrow> Inl e
      | Inr (eggID, g1) \<Rightarrow>
          (let timestamp = shd c; c1 = stl c in
           (case randint 1 64 g1 of
              Inl e \<Rightarrow> Inl e
            | Inr (shinyRoll, g2) \<Rightarrow>
                if isShiny \<or> shinyRoll = 1 then
                  (case getRandomSpeciesForShiny (tier + 1) eggTypesData g2 of
                     Inl e \<Rightarrow> Inl e
                   | Inr (None, g3) \<Rightarrow> Inl TypeError
                   | Inr (Some (speciesID, speciesEggType), g3) \<Rightarrow>
                       Inr (\<lparr>egg_id = eggID, egg_gachaType = gachaType,
                             egg_hatchWaves = hatchWaveCount, egg_timestamp = timestamp,
                             egg_isShiny = True,
                             egg_variantTier = (if isShiny then variantTier - 1 else 0),
                             egg_sourceType = 1,
                             egg_species = Some speciesID,
                             egg_tier = Some (speciesEggType - 1)\<rparr>, g3, c1))
                else
                  Inr (\<lparr>egg_id = eggID, egg_gachaType = gachaType,
                        egg_hatchWaves = hatchWaveCount, egg_timestamp = timestamp,
                        egg_isShiny = False, egg_variantTier = 0,
                        egg_sourceType = gachaType,
                        egg_species = None,
                        egg_tier = Some tier\<rparr>, g2, c1))))"

text \<open>The loop \<^verbatim>\<open>for _ in range(eggAmount)\<close>, with the list \<^verbatim>\<open>eggs\<close> it appends to.\<close>

fun eggLoop ::
  "nat \<Rightarrow> int \<Rightarrow> int \<Rightarrow> int \<Rightarrow> member list \<Rightarrow> bool \<Rightarrow> int \<Rightarrow> int \<Rightarrow> int \<Rightarrow> bool \<Rightarrow>
   egg list \<Rightarrow> rng \<Rightarrow> clock \<Rightarrow> error + (egg list \<times> rng \<times> clock)" where
  "eggLoop 0 tier gachaType hatchWaveCount eggTypesData isShiny variantTier start end' isManaphy
     eggs g c = Inr (eggs, g, c)"
| "eggLoop (Suc n) tier gachaType hatchWaveCount eggTypesData isShiny variantTier start end' isManaphy
     eggs g c =
     (case eggBody tier gachaType hatchWaveCount eggTypesData isShiny variantTier start end'
             isManaphy g c of
        Inl e \<Rightarrow> Inl e
      | Inr (egg, g', c') \<Rightarrow>
          eggLoop n tier gachaType hatchWaveCount eggTypesData isShiny variantTier start end'
            isManaphy (eggs @ [egg]) g' c')"

text \<open>\<^verbatim>\<open>range(eggAmount)\<close> is empty for a negative \<^verbatim>\<open>eggAmount\<close>: \<open>nat eggAmount\<close> rounds.\<close>

definition constructEggs ::
  "int \<Rightarrow> int \<Rightarrow> int \<Rightarrow> int \<Rightarrow> member list \<Rightarrow> bool \<Rightarrow> int \<Rightarrow> rng \<Rightarrow> clock \<Rightarrow>
   error + egg list" where
  "constructEggs tier gachaType hatchWaveCount eggAmount eggTypesData isShiny variantTier g c =
     (let isManaphy = (tier = 4);
          (start, end') = getIDBoundarys (if isManaphy then 0 else tier)
      in (case eggLoop (nat eggAmount) tier gachaType hatchWaveCount eggTypesData isShiny
                 variantTier start end' isManaphy [] g c of
            Inl e \<Rightarrow> Inl e
          | Inr (eggs, g', c') \<Rightarrow> Inr eggs))"

text \<open>
  For comparing two runs: the outcome of a call with the \<^verbatim>\<open>timestamp\<close> of every egg
  blanked.
\<close>

definition without_timestamps :: "error + egg list \<Rightarrow> error + egg list" where
  "without_timestamps r =
     (case r of
        Inl e \<Rightarrow> Inl e
      | Inr eggs \<Rightarrow> Inr (map (\<lambda>e. e\<lparr>egg_timestamp := 0\<rparr>) eggs))"

section \<open>Properties of the identifier ranges\<close>

lemma getIDBoundarys_eq:
  "getIDBoundarys t = (max (t * 1073741824) 255, (t + 1) * 1073741824 - 1)"
  by (simp add: getIDBoundarys_def EGG_SEED_def)

text \<open>
  C6: for every tier \<open>t \<ge> 0\<close>, \<^verbatim>\<open>getIDBoundarys(t)\<close> is the pair
  \<open>(max (t * 1073741824) 255, (t + 1) * 1073741824 - 1)\<close>, its start is at most its end,
  and its start is at least 255.
\<close>

theorem getIDBoundarys_range:
  assumes "0 \<le> t"
  shows "getIDBoundarys t = (max (t * 1073741824) 255, (t + 1) * 1073741824 - 1)
         \<and> fst (getIDBoundarys t) \<le> snd (getIDBoundarys t)
         \<and> 255 \<le> fst (getIDBoundarys t)"
  using assms by (simp add: getIDBoundarys_eq algebra_simps)

theorem getIDBoundarys_range_witness:
  "(0::int) \<le> 2 \<and> getIDBoundarys 2 = (2147483648, 3221225471)
   \<and> fst (getIDBoundarys 2) \<le> snd (getIDBoundarys 2)
   \<and> 255 \<le> fst (getIDBoundarys 2)"
  using getIDBoundarys_range [of 2] by simp

text \<open>
  C9: for tiers \<open>1 \<le> s < t\<close> the interval of tier \<open>t\<close> starts right after the end of
  the interval of tier \<open>t - 1\<close> (and that of \<open>s\<close> right after the end of \<open>s - 1\<close>), the
  intervals of \<open>s\<close> and \<open>t\<close> are disjoint, and their starts are the unclamped
  \<open>tier * EGG_SEED\<close>; only tier 0 starts at the floor 255 instead of \<open>0 * EGG_SEED\<close>.
\<close>

theorem getIDBoundarys_contiguous:
  assumes "1 \<le> s" and "s < t"
  shows "snd (getIDBoundarys (t - 1)) + 1 = fst (getIDBoundarys t)
         \<and> snd (getIDBoundarys (s - 1)) + 1 = fst (getIDBoundarys s)
         \<and> snd (getIDBoundarys s) < fst (getIDBoundarys t)
         \<and> {fst (getIDBoundarys s) .. snd (getIDBoundarys s)}
             \<inter> {fst (getIDBoundarys t) .. snd (getIDBoundarys t)} = {}
         \<and> fst (getIDBoundarys s) = s * EGG_SEED
         \<and> fst (getIDBoundarys t) = t * EGG_SEED
         \<and> fst (getIDBoundarys 0) = 255
         \<and> fst (getIDBoundarys 0) \<noteq> 0 * EGG_SEED"
proof -
  have s: "getIDBoundarys s = (s * 1073741824, (s + 1) * 1073741824 - 1)"
    using assms by (simp add: getIDBoundarys_eq max_def)
  have t: "getIDBoundarys t = (t * 1073741824, (t + 1) * 1073741824 - 1)"
    using assms by (simp add: getIDBoundarys_eq max_def)
  have lt: "snd (getIDBoundarys s) < fst (getIDBoundarys t)"
    using assms by (simp add: s t)
  have disj: "{fst (getIDBoundarys s) .. snd (getIDBoundarys s)}
             \<inter> {fst (getIDBoundarys t) .. snd (getIDBoundarys t)} = {}"
    using lt by auto
  have e: "snd (getIDBoundarys x) = (x + 1) * 1073741824 - 1" for x
    by (simp add: getIDBoundarys_eq)
  have c1: "snd (getIDBoundarys (t - 1)) + 1 = fst (getIDBoundarys t)"
    by (simp add: t e)
  have c2: "snd (getIDBoundarys (s - 1)) + 1 = fst (getIDBoundarys s)"
    by (simp add: s e)
  have z: "fst (getIDBoundarys 0) = 255" by (simp add: getIDBoundarys_eq)
  have fs: "fst (getIDBoundarys s) = s * EGG_SEED" by (simp add: s EGG_SEED_def)
  have ft: "fst (getIDBoundarys t) = t * EGG_SEED" by (simp add: t EGG_SEED_def)
  show ?thesis using lt disj c1 c2 z fs ft by simp
qed

theorem getIDBoundarys_contiguous_witness:
  "(1::int) \<le> 1 \<and> (1::int) < 2
   \<and> getIDBoundarys 1 = (1073741824, 2147483647)
   \<and> getIDBoundarys 2 = (2147483648, 3221225471)
   \<and> snd (getIDBoundarys (2 - 1)) + 1 = fst (getIDBoundarys 2)
   \<and> snd (getIDBoundarys 1) < fst (getIDBoundarys 2)"
  using getIDBoundarys_contiguous [of 1 2] by (simp add: getIDBoundarys_eq)

section \<open>Properties of the random source\<close>

lemma randint_ok:
  assumes "a \<le> b"
  shows "randint a b g = Inr (a + int (shd g mod nat (b - a + 1)), stl g)"
proof -
  have "nat (b + 1 - a) = nat (b - a + 1)" by (simp add: algebra_simps)
  then show ?thesis using assms by (simp add: randint_def randrange_def randbelow_def)
qed

lemma randint_bounds:
  assumes "a \<le> b"
  shows "a \<le> a + int (shd g mod nat (b - a + 1))" "a + int (shd g mod nat (b - a + 1)) \<le> b"
proof -
  have "shd g mod nat (b - a + 1) < nat (b - a + 1)" using assms by simp
  then have "int (shd g mod nat (b - a + 1)) < b - a + 1" using assms by linarith
  then show "a + int (shd g mod nat (b - a + 1)) \<le> b" by simp
qed simp

section \<open>Properties of the identifiers\<close>

lemma clamp_not_multiple:
  "\<not> 204 dvd max (if d mod 204 = 0 then d - 1 else d) (1::int)"
proof (cases "d mod 204 = 0")
  case True
  have "(d - 1) mod 204 = (d mod 204 - 1) mod 204" by (simp add: mod_diff_left_eq)
  then have "(d - 1) mod 204 = 203" using True by simp
  then have "\<not> 204 dvd (d - 1)" by (simp add: dvd_eq_mod_eq_0)
  moreover have "\<not> 204 dvd (1::int)" by simp
  ultimately show ?thesis using True by (simp add: max_def)
next
  case False
  then have "\<not> 204 dvd d" by (simp add: dvd_eq_mod_eq_0)
  moreover have "\<not> 204 dvd (1::int)" by simp
  ultimately show ?thesis using False by (simp add: max_def)
qed

text \<open>
  C4: for \<open>start \<le> end\<close>, \<^verbatim>\<open>generateRandomID(start, end, manaphy=False)\<close> returns;
  the value is the draw \<open>d\<close> from \<open>[start, end]\<close>, decremented by one when \<open>d\<close> is a
  multiple of 204, then clamped to at least 1. It is no multiple of 204 at all (so no
  nonzero multiple of 204) and it is at least 1.
\<close>

theorem generateRandomID_normal:
  assumes "start \<le> end'"
  shows "\<exists>d r g'. generateRandomID start end' False g = Inr (r, g')
           \<and> start \<le> d \<and> d \<le> end'
           \<and> r = max (if d mod 204 = 0 then d - 1 else d) 1
           \<and> \<not> 204 dvd r \<and> 1 \<le> r"
proof -
  define d where "d = start + int (shd g mod nat (end' - start + 1))"
  define r where "r = max (if d mod 204 = 0 then d - 1 else d) 1"
  have "generateRandomID start end' False g = Inr (r, stl g)"
    using assms by (simp add: generateRandomID_def randint_ok d_def r_def Let_def)
  moreover have "start \<le> d" "d \<le> end'"
    using randint_bounds [OF assms, of g] by (simp_all add: d_def)
  moreover have "\<not> 204 dvd r" unfolding r_def by (rule clamp_not_multiple)
  moreover have "1 \<le> r" by (simp add: r_def)
  ultimately show ?thesis using r_def by blast
qed

theorem generateRandomID_normal_witness:
  "(1::int) \<le> 1000
   \<and> generateRandomID 1 1000 False (sconst 203) = Inr (203, sconst 203)
   \<and> (\<exists>d r g'. generateRandomID 1 1000 False (sconst 203) = Inr (r, g')
           \<and> 1 \<le> d \<and> d \<le> 1000
           \<and> r = max (if d mod 204 = 0 then d - 1 else d) 1
           \<and> \<not> 204 dvd r \<and> 1 \<le> r)"
proof -
  have "generateRandomID 1 1000 False (sconst 203) = Inr (203, sconst 203)"
    by (simp add: generateRandomID_def randint_def randrange_def randbelow_def)
  then show ?thesis using generateRandomID_normal [of 1 1000 "sconst 203"] by simp
qed

lemma manaphy_id_aligned:
  assumes "start \<le> end'"
  shows "\<exists>r g'. generateRandomID start end' True g = Inr (r, g')
           \<and> 204 dvd r
           \<and> start div 204 * 204 \<le> r
           \<and> r \<le> end' div 204 * 204
           \<and> r \<le> (end' + 203) div 204 * 204"
proof -
  define lo where "lo = start div 204"
  define hi where "hi = end' div 204"
  define n where "n = hi + 1 - lo"
  define k where "k = int (shd g mod nat n)"
  have lohi: "lo \<le> hi" unfolding lo_def hi_def using assms by (rule zdiv_mono1) simp
  then have npos: "0 < n" by (simp add: n_def)
  have "(hi + 1) * 204 - lo * 204 + 204 - 1 = 203 + n * 204"
    by (simp add: n_def algebra_simps)
  then have width: "((hi + 1) * 204 - lo * 204 + 204 - 1) div 204 = n"
    by simp
  have run: "generateRandomID start end' True g = Inr (lo * 204 + 204 * k, stl g)"
    using npos width
    by (simp add: generateRandomID_def randrange_def randbelow_def lo_def [symmetric]
        hi_def [symmetric] k_def Let_def)
  have "shd g mod nat n < nat n" using npos by simp
  then have kn: "k < n" unfolding k_def using npos by linarith
  have k0: "0 \<le> k" by (simp add: k_def)
  have d: "204 dvd lo * 204 + 204 * k" by simp
  have l: "lo * 204 \<le> lo * 204 + 204 * k" using k0 by simp
  have "lo + k \<le> hi" using kn by (simp add: n_def)
  then have u: "lo * 204 + 204 * k \<le> hi * 204" by simp
  have "hi \<le> (end' + 203) div 204" unfolding hi_def by (rule zdiv_mono1) simp_all
  then have u': "hi * 204 \<le> (end' + 203) div 204 * 204" by simp
  from u u' have u'': "lo * 204 + 204 * k \<le> (end' + 203) div 204 * 204" by simp
  show ?thesis using run d l u u'' unfolding lo_def hi_def by blast
qed

text \<open>
  C5: for \<open>start \<le> end\<close>, \<^verbatim>\<open>generateRandomID(start, end, manaphy=True)\<close> returns a
  multiple of 204 that lies between \<open>start\<close> rounded down to a multiple of 204 and
  \<open>end\<close> rounded up to a multiple of 204 (it is even at most \<open>end\<close> rounded down).
\<close>

theorem generateRandomID_manaphy:
  assumes "start \<le> end'"
  shows "\<exists>r g'. generateRandomID start end' True g = Inr (r, g')
           \<and> 204 dvd r
           \<and> start div 204 * 204 \<le> r
           \<and> r \<le> end' div 204 * 204
           \<and> r \<le> (end' + 203) div 204 * 204"
  using assms by (rule manaphy_id_aligned)

theorem generateRandomID_manaphy_witness:
  "(255::int) \<le> 1073741823
   \<and> generateRandomID 255 1073741823 True (sconst 0) = Inr (204, sconst 0)
   \<and> (\<exists>r g'. generateRandomID 255 1073741823 True (sconst 0) = Inr (r, g')
           \<and> 204 dvd r
           \<and> 255 div 204 * 204 \<le> r
           \<and> r \<le> 1073741823 div 204 * 204
           \<and> r \<le> (1073741823 + 203) div 204 * 204)"
proof -
  have "generateRandomID 255 1073741823 True (sconst 0) = Inr (204, sconst 0)"
    by (simp add: generateRandomID_def randrange_def randbelow_def)
  then show ?thesis using generateRandomID_manaphy [of 255 1073741823 "sconst 0"] by simp
qed

section \<open>Properties of the species matcher\<close>

lemma speciesMatches_isEgg:
  assumes "speciesMatches t m"
  shows "\<exists>info. isEgg (member_value m) = Some info"
  using assms by (cases "isEgg (member_value m)") (simp_all add: speciesMatches_def)

lemma speciesMatches_default:
  assumes "t \<noteq> 6" and "t \<noteq> 7"
  shows "speciesMatches t m = (\<exists>info. isEgg (member_value m) = Some info \<and> eggType info = t)"
  using assms by (cases "isEgg (member_value m)") (simp_all add: speciesMatches_def)

lemma choice_nonempty:
  assumes "seq \<noteq> []"
  shows "choice seq g = Inr (seq ! (shd g mod length seq), stl g)"
    and "seq ! (shd g mod length seq) \<in> set seq"
  using assms by (simp_all add: choice_def randbelow_def)

lemma matcher_None:
  assumes "filter (speciesMatches t) cat = []"
  shows "getRandomSpeciesForShiny t cat g = Inr (None, g)"
  using assms by (simp add: getRandomSpeciesForShiny_def)

lemma matcher_Some:
  assumes "filter (speciesMatches t) cat \<noteq> []"
  shows "\<exists>rnd info. rnd \<in> set cat \<and> speciesMatches t rnd
           \<and> isEgg (member_value rnd) = Some info
           \<and> getRandomSpeciesForShiny t cat g = Inr (Some (member_name rnd, eggType info), stl g)"
proof -
  define seq where "seq = filter (speciesMatches t) cat"
  define rnd where "rnd = seq ! (shd g mod length seq)"
  have ne: "seq \<noteq> []" using assms by (simp add: seq_def)
  have "rnd \<in> set seq" unfolding rnd_def using ne by (rule choice_nonempty(2))
  then have mem: "rnd \<in> set cat" and ok: "speciesMatches t rnd" by (simp_all add: seq_def)
  from ok obtain info where info: "isEgg (member_value rnd) = Some info"
    using speciesMatches_isEgg by blast
  have "choice seq g = Inr (rnd, stl g)" unfolding rnd_def using ne by (rule choice_nonempty(1))
  then have "getRandomSpeciesForShiny t cat g = Inr (Some (member_name rnd, eggType info), stl g)"
    using ne info by (simp add: getRandomSpeciesForShiny_def seq_def [symmetric])
  then show ?thesis using mem ok info by blast
qed

lemma matcher_skips:
  "getRandomSpeciesForShiny t (filter (\<lambda>m. isEgg (member_value m) \<noteq> None) cat) g
   = getRandomSpeciesForShiny t cat g"
proof -
  have "(\<lambda>m. isEgg (member_value m) \<noteq> None \<and> speciesMatches t m) = speciesMatches t"
    using speciesMatches_isEgg by fastforce
  then have "filter (speciesMatches t) (filter (\<lambda>m. isEgg (member_value m) \<noteq> None) cat)
             = filter (speciesMatches t) cat"
    by (simp add: conj_commute)
  then show ?thesis by (simp add: getRandomSpeciesForShiny_def)
qed

text \<open>
  C8: for a tier \<open>t\<close> other than 6 and 7 and every catalog, the matcher does not raise; a
  result \<open>Some (k, et)\<close> is the key of a catalog entry that has \<^verbatim>\<open>isEgg\<close> metadata with
  \<^verbatim>\<open>eggType\<close> equal to \<open>t\<close>, and \<open>et = t\<close>; the result is \<open>None\<close> exactly when no catalog
  entry has \<^verbatim>\<open>isEgg\<close> metadata with \<^verbatim>\<open>eggType\<close> equal to \<open>t\<close>. Under every policy \<open>t'\<close>
  entries without \<^verbatim>\<open>isEgg\<close> metadata are skipped: removing them from the catalog
  changes nothing, and a result is always an entry with \<^verbatim>\<open>isEgg\<close> metadata.
\<close>

theorem matcher_default_policy:
  assumes "t \<noteq> 6" and "t \<noteq> 7"
  shows "(\<exists>r g'. getRandomSpeciesForShiny t cat g = Inr (r, g'))
         \<and> (\<forall>k et g'. getRandomSpeciesForShiny t cat g = Inr (Some (k, et), g') \<longrightarrow>
               et = t \<and> (\<exists>m\<in>set cat. \<exists>info. member_name m = k
                            \<and> isEgg (member_value m) = Some info \<and> eggType info = t))
         \<and> ((\<exists>g'. getRandomSpeciesForShiny t cat g = Inr (None, g'))
              = (\<not> (\<exists>m\<in>set cat. \<exists>info. isEgg (member_value m) = Some info \<and> eggType info = t)))
         \<and> (\<forall>t'. getRandomSpeciesForShiny t' (filter (\<lambda>m. isEgg (member_value m) \<noteq> None) cat) g
                  = getRandomSpeciesForShiny t' cat g)
         \<and> (\<forall>t' k et g'. getRandomSpeciesForShiny t' cat g = Inr (Some (k, et), g') \<longrightarrow>
               (\<exists>m\<in>set cat. \<exists>info. member_name m = k
                            \<and> isEgg (member_value m) = Some info \<and> eggType info = et))"
proof -
  have qual: "(filter (speciesMatches t) cat = [])
              = (\<not> (\<exists>m\<in>set cat. \<exists>info. isEgg (member_value m) = Some info \<and> eggType info = t))"
    using speciesMatches_default [OF assms] by (simp add: filter_empty_conv)
  have any: "\<exists>m\<in>set cat. \<exists>info. member_name m = k
                \<and> isEgg (member_value m) = Some info \<and> eggType info = et \<and> speciesMatches t' m"
    if "getRandomSpeciesForShiny t' cat g = Inr (Some (k, et), g')" for t' k et g'
  proof (cases "filter (speciesMatches t') cat = []")
    case True
    then show ?thesis using that by (simp add: matcher_None)
  next
    case False
    from matcher_Some [OF False, of g] that show ?thesis by auto
  qed
  have returns: "\<exists>r g'. getRandomSpeciesForShiny t cat g = Inr (r, g')"
  proof (cases "filter (speciesMatches t) cat = []")
    case True
    then show ?thesis by (simp add: matcher_None)
  next
    case False
    from matcher_Some [OF False, of g] show ?thesis by blast
  qed
  have some: "et = t \<and> (\<exists>m\<in>set cat. \<exists>info. member_name m = k
                            \<and> isEgg (member_value m) = Some info \<and> eggType info = t)"
    if "getRandomSpeciesForShiny t cat g = Inr (Some (k, et), g')" for k et g'
    using any [OF that] speciesMatches_default [OF assms] by auto
  have none: "(\<exists>g'. getRandomSpeciesForShiny t cat g = Inr (None, g'))
              = (\<not> (\<exists>m\<in>set cat. \<exists>info. isEgg (member_value m) = Some info \<and> eggType info = t))"
  proof (cases "filter (speciesMatches t) cat = []")
    case True
    then show ?thesis using qual by (simp add: matcher_None)
  next
    case False
    from matcher_Some [OF False, of g] show ?thesis using False qual by auto
  qed
  show ?thesis using returns some none matcher_skips any by blast
qed

theorem matcher_default_policy_witness:
  "(1::int) \<noteq> 6 \<and> (1::int) \<noteq> 7
   \<and> getRandomSpeciesForShiny 1
        [\<lparr>member_name = 10, member_value = \<lparr>name = ''CATERPIE'', isEgg = None\<rparr>\<rparr>,
         \<lparr>member_name = 4, member_value = \<lparr>name = ''CHARMANDER'', isEgg = Some \<lparr>eggType = 2\<rparr>\<rparr>\<rparr>,
         \<lparr>member_name = 25, member_value = \<lparr>name = ''PIKACHU'', isEgg = Some \<lparr>eggType = 1\<rparr>\<rparr>\<rparr>]
        (sconst 0)
      = Inr (Some (25, 1), sconst 0)
   \<and> (\<exists>r g'. getRandomSpeciesForShiny 1
        [\<lparr>member_name = 10, member_value = \<lparr>name = ''CATERPIE'', isEgg = None\<rparr>\<rparr>,
         \<lparr>member_name = 4, member_value = \<lparr>name = ''CHARMANDER'', isEgg = Some \<lparr>eggType = 2\<rparr>\<rparr>\<rparr>,
         \<lparr>member_name = 25, member_value = \<lparr>name = ''PIKACHU'', isEgg = Some \<lparr>eggType = 1\<rparr>\<rparr>\<rparr>]
        (sconst 0) = Inr (r, g'))"
proof -
  have "getRandomSpeciesForShiny 1
        [\<lparr>member_name = 10, member_value = \<lparr>name = ''CATERPIE'', isEgg = None\<rparr>\<rparr>,
         \<lparr>member_name = 4, member_value = \<lparr>name = ''CHARMANDER'', isEgg = Some \<lparr>eggType = 2\<rparr>\<rparr>\<rparr>,
         \<lparr>member_name = 25, member_value = \<lparr>name = ''PIKACHU'', isEgg = Some \<lparr>eggType = 1\<rparr>\<rparr>\<rparr>]
        (sconst 0)
      = Inr (Some (25, 1), sconst 0)"
    by (simp add: getRandomSpeciesForShiny_def speciesMatches_def choice_def randbelow_def)
  then show ?thesis
    using matcher_default_policy [of 1
        "[\<lparr>member_name = 10, member_value = \<lparr>name = ''CATERPIE'', isEgg = None\<rparr>\<rparr>,
         \<lparr>member_name = 4, member_value = \<lparr>name = ''CHARMANDER'', isEgg = Some \<lparr>eggType = 2\<rparr>\<rparr>\<rparr>,
         \<lparr>member_name = 25, member_value = \<lparr>name = ''PIKACHU'', isEgg = Some \<lparr>eggType = 1\<rparr>\<rparr>\<rparr>]"
        "sconst 0"]
    by simp
qed

section \<open>Properties of the batch constructor\<close>

lemma eggBody_clock:
  "eggBody tier gachaType hatchWaveCount cat isShiny variantTier start end' isManaphy g c =
     (case eggBody tier gachaType hatchWaveCount cat isShiny variantTier start end' isManaphy g
             (sconst 0) of
        Inl x \<Rightarrow> Inl x
      | Inr (e, g', c0) \<Rightarrow> Inr (e\<lparr>egg_timestamp := shd c\<rparr>, g', stl c))"
  by (simp add: eggBody_def Let_def split: sum.splits prod.splits option.splits)

lemma eggBody_Inr:
  assumes "eggBody tier gachaType hatchWaveCount cat isShiny variantTier start end' isManaphy g c
           = Inr (e, g', c')"
  shows "\<exists>g1 roll g2.
           generateRandomID start end' isManaphy g = Inr (egg_id e, g1)
           \<and> randint 1 64 g1 = Inr (roll, g2)
           \<and> egg_isShiny e = (isShiny \<or> roll = 1)"
    and "egg_timestamp e = shd c \<and> c' = stl c"
    and "egg_gachaType e = gachaType \<and> egg_hatchWaves e = hatchWaveCount"
    and "egg_isShiny e \<Longrightarrow>
           egg_variantTier e = (if isShiny then variantTier - 1 else 0)
           \<and> egg_sourceType e = 1
           \<and> (\<exists>m info. m \<in> set cat \<and> speciesMatches (tier + 1) m
                 \<and> isEgg (member_value m) = Some info
                 \<and> egg_species e = Some (member_name m)
                 \<and> egg_tier e = Some (eggType info - 1))"
    and "\<not> egg_isShiny e \<Longrightarrow>
           egg_variantTier e = 0 \<and> egg_sourceType e = gachaType
           \<and> egg_species e = None \<and> egg_tier e = Some tier"
proof -
  from assms obtain eggID g1 where id: "generateRandomID start end' isManaphy g = Inr (eggID, g1)"
    by (auto simp: eggBody_def split: sum.splits)
  from assms id obtain roll g2 where roll: "randint 1 64 g1 = Inr (roll, g2)"
    by (auto simp: eggBody_def Let_def split: sum.splits)
  show "egg_timestamp e = shd c \<and> c' = stl c"
    using assms id roll
    by (auto simp: eggBody_def Let_def split: sum.splits option.splits if_splits)
  show "egg_gachaType e = gachaType \<and> egg_hatchWaves e = hatchWaveCount"
    using assms id roll
    by (auto simp: eggBody_def Let_def split: sum.splits option.splits if_splits)
  show "\<exists>g1 roll g2.
           generateRandomID start end' isManaphy g = Inr (egg_id e, g1)
           \<and> randint 1 64 g1 = Inr (roll, g2)
           \<and> egg_isShiny e = (isShiny \<or> roll = 1)"
    using assms id roll
    by (auto simp: eggBody_def Let_def split: sum.splits option.splits if_splits)
  show "egg_variantTier e = 0 \<and> egg_sourceType e = gachaType
           \<and> egg_species e = None \<and> egg_tier e = Some tier" if "\<not> egg_isShiny e"
    using assms id roll that
    by (auto simp: eggBody_def Let_def split: sum.splits option.splits if_splits)
  show "egg_variantTier e = (if isShiny then variantTier - 1 else 0)
           \<and> egg_sourceType e = 1
           \<and> (\<exists>m info. m \<in> set cat \<and> speciesMatches (tier + 1) m
                 \<and> isEgg (member_value m) = Some info
                 \<and> egg_species e = Some (member_name m)
                 \<and> egg_tier e = Some (eggType info - 1))" if shiny: "egg_isShiny e"
  proof (cases "filter (speciesMatches (tier + 1)) cat = []")
    case True
    have "getRandomSpeciesForShiny (tier + 1) cat g2 = Inr (None, g2)"
      using True by (rule matcher_None)
    then show ?thesis using assms id roll shiny
      by (auto simp: eggBody_def Let_def split: if_splits)
  next
    case False
    from matcher_Some [OF False, of g2] obtain rnd info where
      m: "rnd \<in> set cat" "speciesMatches (tier + 1) rnd" "isEgg (member_value rnd) = Some info"
      and r: "getRandomSpeciesForShiny (tier + 1) cat g2
              = Inr (Some (member_name rnd, eggType info), stl g2)"
      by blast
    have e: "e = \<lparr>egg_id = eggID, egg_gachaType = gachaType, egg_hatchWaves = hatchWaveCount,
                  egg_timestamp = shd c, egg_isShiny = True,
                  egg_variantTier = (if isShiny then variantTier - 1 else 0),
                  egg_sourceType = 1, egg_species = Some (member_name rnd),
                  egg_tier = Some (eggType info - 1)\<rparr>"
      using assms id roll shiny r
      by (auto simp: eggBody_def Let_def split: if_splits)
    show ?thesis using m by (auto simp: e)
  qed
qed

lemma eggLoop_Inr:
  assumes "eggLoop n tier gachaType hatchWaveCount cat isShiny variantTier start end' isManaphy
             acc g c = Inr (eggs, g', c')"
  shows "\<exists>new. eggs = acc @ new \<and> length new = n
           \<and> (\<forall>i<n. egg_timestamp (new ! i) = c !! i)
           \<and> (\<forall>e\<in>set new. \<exists>g0 c0 g1 c1.
                 eggBody tier gachaType hatchWaveCount cat isShiny variantTier start end'
                   isManaphy g0 c0 = Inr (e, g1, c1))"
  using assms
proof (induction n arbitrary: acc g c)
  case 0
  then show ?case by simp
next
  case (Suc n)
  from Suc.prems obtain e g1 c1 where
    body: "eggBody tier gachaType hatchWaveCount cat isShiny variantTier start end' isManaphy g c
           = Inr (e, g1, c1)"
    and rest: "eggLoop n tier gachaType hatchWaveCount cat isShiny variantTier start end' isManaphy
                 (acc @ [e]) g1 c1 = Inr (eggs, g', c')"
    by (auto split: sum.splits)
  from Suc.IH [OF rest] obtain new where
    new: "eggs = (acc @ [e]) @ new" "length new = n"
      "\<forall>i<n. egg_timestamp (new ! i) = c1 !! i"
      "\<forall>e\<in>set new. \<exists>g0 c0 g1 c1.
         eggBody tier gachaType hatchWaveCount cat isShiny variantTier start end'
           isManaphy g0 c0 = Inr (e, g1, c1)"
    by blast
  from eggBody_Inr(2) [OF body] have ts: "egg_timestamp e = shd c" and c1: "c1 = stl c"
    by simp_all
  have stamps: "egg_timestamp ((e # new) ! i) = c !! i" if "i < Suc n" for i
  proof (cases i)
    case 0
    then show ?thesis by (simp add: ts)
  next
    case (Suc j)
    then show ?thesis using that new(3) by (simp add: c1)
  qed
  have "eggs = acc @ (e # new)" by (simp add: new(1))
  moreover have "length (e # new) = Suc n" by (simp add: new(2))
  moreover have "\<forall>x\<in>set (e # new). \<exists>g0 c0 g1 c1.
         eggBody tier gachaType hatchWaveCount cat isShiny variantTier start end'
           isManaphy g0 c0 = Inr (x, g1, c1)"
    using body new(4) by auto
  ultimately show ?case using stamps by blast
qed

lemma constructEggs_Inr:
  assumes "constructEggs tier gachaType hatchWaveCount eggAmount cat isShiny variantTier g c
           = Inr eggs"
  shows "length eggs = nat eggAmount"
    and "\<forall>i<nat eggAmount. egg_timestamp (eggs ! i) = c !! i"
    and "\<forall>e\<in>set eggs. \<exists>g0 c0 g1 c1.
           eggBody tier gachaType hatchWaveCount cat isShiny variantTier
             (fst (getIDBoundarys (if tier = 4 then 0 else tier)))
             (snd (getIDBoundarys (if tier = 4 then 0 else tier)))
             (tier = 4) g0 c0 = Inr (e, g1, c1)"
proof -
  from assms obtain g' c' where
    "eggLoop (nat eggAmount) tier gachaType hatchWaveCount cat isShiny variantTier
       (fst (getIDBoundarys (if tier = 4 then 0 else tier)))
       (snd (getIDBoundarys (if tier = 4 then 0 else tier)))
       (tier = 4) [] g c = Inr (eggs, g', c')"
    by (auto simp: constructEggs_def Let_def split: prod.splits sum.splits)
  from eggLoop_Inr [OF this] obtain new where
    new: "eggs = [] @ new" "length new = nat eggAmount"
      "\<forall>i<nat eggAmount. egg_timestamp (new ! i) = c !! i"
      "\<forall>e\<in>set new. \<exists>g0 c0 g1 c1.
           eggBody tier gachaType hatchWaveCount cat isShiny variantTier
             (fst (getIDBoundarys (if tier = 4 then 0 else tier)))
             (snd (getIDBoundarys (if tier = 4 then 0 else tier)))
             (tier = 4) g0 c0 = Inr (e, g1, c1)"
    by blast
  from new show "length eggs = nat eggAmount" by simp
  from new show "\<forall>i<nat eggAmount. egg_timestamp (eggs ! i) = c !! i" by simp
  from new show "\<forall>e\<in>set eggs. \<exists>g0 c0 g1 c1.
           eggBody tier gachaType hatchWaveCount cat isShiny variantTier
             (fst (getIDBoundarys (if tier = 4 then 0 else tier)))
             (snd (getIDBoundarys (if tier = 4 then 0 else tier)))
             (tier = 4) g0 c0 = Inr (e, g1, c1)" by simp
qed

lemmas run_defs = constructEggs_def getIDBoundarys_eq eggBody_def generateRandomID_def
  randrange_def randint_def randbelow_def getRandomSpeciesForShiny_def speciesMatches_def
  choice_def Let_def

text \<open>
  C7: when a call with \<^verbatim>\<open>isShiny=True\<close> returns, it returns \<^verbatim>\<open>eggAmount\<close> records and
  each of them has \<^verbatim>\<open>isShiny\<close> true, \<^verbatim>\<open>variantTier\<close> equal to the caller's
  \<^verbatim>\<open>variantTier\<close> minus one (2 for the caller's 3), \<^verbatim>\<open>sourceType\<close> 1, and as
  \<^verbatim>\<open>timestamp\<close> the clock value read in its own iteration of the loop, that is, a
  reading taken while the call runs.
\<close>

theorem constructEggs_force_shiny:
  assumes "constructEggs tier gachaType hatchWaveCount eggAmount cat True variantTier g c
           = Inr eggs"
  shows "length eggs = nat eggAmount
         \<and> (\<forall>i<length eggs.
               egg_isShiny (eggs ! i)
               \<and> egg_variantTier (eggs ! i) = variantTier - 1
               \<and> egg_sourceType (eggs ! i) = 1
               \<and> egg_timestamp (eggs ! i) = c !! i)"
proof -
  note facts = constructEggs_Inr [OF assms]
  have "egg_isShiny (eggs ! i) \<and> egg_variantTier (eggs ! i) = variantTier - 1
        \<and> egg_sourceType (eggs ! i) = 1 \<and> egg_timestamp (eggs ! i) = c !! i"
    if "i < length eggs" for i
  proof -
    from that have "eggs ! i \<in> set eggs" by simp
    with facts(3) obtain g0 c0 g1 c1 where
      body: "eggBody tier gachaType hatchWaveCount cat True variantTier
             (fst (getIDBoundarys (if tier = 4 then 0 else tier)))
             (snd (getIDBoundarys (if tier = 4 then 0 else tier)))
             (tier = 4) g0 c0 = Inr (eggs ! i, g1, c1)"
      by blast
    from eggBody_Inr(1) [OF body] have shiny: "egg_isShiny (eggs ! i)" by auto
    from eggBody_Inr(4) [OF body shiny]
    have "egg_variantTier (eggs ! i) = variantTier - 1 \<and> egg_sourceType (eggs ! i) = 1"
      by simp
    moreover have "egg_timestamp (eggs ! i) = c !! i"
      using facts(1,2) that by simp
    ultimately show ?thesis using shiny by simp
  qed
  then show ?thesis using facts(1) by simp
qed

theorem constructEggs_force_shiny_witness:
  "constructEggs 0 7 9 2
     [\<lparr>member_name = 25, member_value = \<lparr>name = ''PIKACHU'', isEgg = Some \<lparr>eggType = 1\<rparr>\<rparr>\<rparr>]
     True 3 (sconst 0) (1000 ## 1001 ## sconst 0)
   = Inr [\<lparr>egg_id = 255, egg_gachaType = 7, egg_hatchWaves = 9, egg_timestamp = 1000,
            egg_isShiny = True, egg_variantTier = 2, egg_sourceType = 1,
            egg_species = Some 25, egg_tier = Some 0\<rparr>,
          \<lparr>egg_id = 255, egg_gachaType = 7, egg_hatchWaves = 9, egg_timestamp = 1001,
            egg_isShiny = True, egg_variantTier = 2, egg_sourceType = 1,
            egg_species = Some 25, egg_tier = Some 0\<rparr>]
   \<and> length [\<lparr>egg_id = 255, egg_gachaType = 7, egg_hatchWaves = 9, egg_timestamp = 1000,
            egg_isShiny = True, egg_variantTier = 2, egg_sourceType = 1,
            egg_species = Some 25, egg_tier = Some 0\<rparr>,
          \<lparr>egg_id = 255, egg_gachaType = 7, egg_hatchWaves = 9, egg_timestamp = 1001,
            egg_isShiny = True, egg_variantTier = 2, egg_sourceType = (1::int),
            egg_species = Some (25::int), egg_tier = Some (0::int)\<rparr>] = nat 2"
proof -
  have run: "constructEggs 0 7 9 2
     [\<lparr>member_name = 25, member_value = \<lparr>name = ''PIKACHU'', isEgg = Some \<lparr>eggType = 1\<rparr>\<rparr>\<rparr>]
     True 3 (sconst 0) (1000 ## 1001 ## sconst 0)
   = Inr [\<lparr>egg_id = 255, egg_gachaType = 7, egg_hatchWaves = 9, egg_timestamp = 1000,
            egg_isShiny = True, egg_variantTier = 2, egg_sourceType = 1,
            egg_species = Some 25, egg_tier = Some 0\<rparr>,
          \<lparr>egg_id = 255, egg_gachaType = 7, egg_hatchWaves = 9, egg_timestamp = 1001,
            egg_isShiny = True, egg_variantTier = 2, egg_sourceType = 1,
            egg_species = Some 25, egg_tier = Some 0\<rparr>]"
    by (simp add: run_defs numeral_2_eq_2)
  from constructEggs_force_shiny [OF run] run show ?thesis by simp
qed

text \<open>
  C10: in a list that \<^verbatim>\<open>constructEggs\<close> returns, every record with \<^verbatim>\<open>isShiny\<close> true
  has a \<^verbatim>\<open>species\<close>, the key of a catalog entry the matcher accepts for \<open>tier + 1\<close>,
  and its \<^verbatim>\<open>tier\<close> is that entry's \<^verbatim>\<open>eggType\<close> minus one. So no returned shiny
  record is without a species: were there no match, the call would not return.
\<close>

theorem constructEggs_shiny_species:
  assumes "constructEggs tier gachaType hatchWaveCount eggAmount cat isShiny variantTier g c
           = Inr eggs"
    and "e \<in> set eggs" and "egg_isShiny e"
  shows "\<exists>m info. m \<in> set cat \<and> speciesMatches (tier + 1) m
           \<and> isEgg (member_value m) = Some info
           \<and> egg_species e = Some (member_name m)
           \<and> egg_tier e = Some (eggType info - 1)"
proof -
  from constructEggs_Inr(3) [OF assms(1)] assms(2) obtain g0 c0 g1 c1 where
    body: "eggBody tier gachaType hatchWaveCount cat isShiny variantTier
             (fst (getIDBoundarys (if tier = 4 then 0 else tier)))
             (snd (getIDBoundarys (if tier = 4 then 0 else tier)))
             (tier = 4) g0 c0 = Inr (e, g1, c1)"
    by blast
  from eggBody_Inr(4) [OF body assms(3)] show ?thesis by simp
qed

theorem constructEggs_shiny_species_witness:
  "constructEggs 0 7 9 1
     [\<lparr>member_name = 25, member_value = \<lparr>name = ''PIKACHU'', isEgg = Some \<lparr>eggType = 1\<rparr>\<rparr>\<rparr>]
     False 0 (0 ## 0 ## sconst 0) (sconst 1000)
   = Inr [\<lparr>egg_id = 255, egg_gachaType = 7, egg_hatchWaves = 9, egg_timestamp = 1000,
            egg_isShiny = True, egg_variantTier = 0, egg_sourceType = 1,
            egg_species = Some 25, egg_tier = Some 0\<rparr>]
   \<and> (\<exists>m info. m \<in> set [\<lparr>member_name = 25,
                             member_value = \<lparr>name = ''PIKACHU'', isEgg = Some \<lparr>eggType = 1\<rparr>\<rparr>\<rparr>]
         \<and> speciesMatches (0 + 1) m
         \<and> isEgg (member_value m) = Some info
         \<and> Some (25::int) = Some (member_name m)
         \<and> Some (0::int) = Some (eggType info - 1))"
proof -
  have run: "constructEggs 0 7 9 1
     [\<lparr>member_name = 25, member_value = \<lparr>name = ''PIKACHU'', isEgg = Some \<lparr>eggType = 1\<rparr>\<rparr>\<rparr>]
     False 0 (0 ## 0 ## sconst 0) (sconst 1000)
   = Inr [\<lparr>egg_id = 255, egg_gachaType = 7, egg_hatchWaves = 9, egg_timestamp = 1000,
            egg_isShiny = True, egg_variantTier = 0, egg_sourceType = 1,
            egg_species = Some 25, egg_tier = Some 0\<rparr>]"
    by (simp add: run_defs)
  from constructEggs_shiny_species [OF run,
      of "\<lparr>egg_id = 255, egg_gachaType = 7, egg_hatchWaves = 9, egg_timestamp = 1000,
            egg_isShiny = True, egg_variantTier = 0, egg_sourceType = 1,
            egg_species = Some 25, egg_tier = Some 0\<rparr>"] run
  show ?thesis by simp
qed

text \<open>
  C1: a forced-shiny batch of one egg over the empty catalog, where the matcher finds no
  entry. The call ends in \<^verbatim>\<open>TypeError\<close> (unpacking \<^verbatim>\<open>None\<close>) and returns no list.
\<close>

theorem constructEggs_no_match_raises:
  "constructEggs 0 gachaType hatchWaveCount 1 [] True variantTier g c = Inl TypeError"
  by (simp add: run_defs)

text \<open>
  C2, as stated, fails: a batch of tier 4 can return a non-shiny record with the
  identifier 204, below the start 255 of \<^verbatim>\<open>getIDBoundarys(0)\<close>, because the reserved
  sampling first rounds the start down to a multiple of 204.
\<close>

theorem constructEggs_manaphy_id_counterexample:
  "constructEggs 4 0 0 1 [] False 0 (0 ## 1 ## sconst 0) (sconst 1000)
   = Inr [\<lparr>egg_id = 204, egg_gachaType = 0, egg_hatchWaves = 0, egg_timestamp = 1000,
            egg_isShiny = False, egg_variantTier = 0, egg_sourceType = 0,
            egg_species = None, egg_tier = Some 4\<rparr>]
   \<and> getIDBoundarys 0 = (255, 1073741823)
   \<and> \<not> (255 \<le> (204::int))"
  by (simp add: run_defs)

text \<open>
  C2, amended: when \<^verbatim>\<open>constructEggs(4, gachaType, hatchWaveCount, N, catalog)\<close> returns,
  the identifier of every non-shiny record is a multiple of 204 that lies in the
  interval of \<^verbatim>\<open>getIDBoundarys(0)\<close> with its start rounded down to a multiple of 204:
  \<open>204 \<le> id \<le> 2^30 - 1\<close>.
\<close>

theorem constructEggs_manaphy_id:
  assumes "constructEggs 4 gachaType hatchWaveCount eggAmount cat False 0 g c = Inr eggs"
    and "e \<in> set eggs" and "\<not> egg_isShiny e"
  shows "204 dvd egg_id e
         \<and> fst (getIDBoundarys 0) div 204 * 204 \<le> egg_id e
         \<and> 204 \<le> egg_id e
         \<and> egg_id e \<le> snd (getIDBoundarys 0)
         \<and> egg_id e \<le> 1073741823"
proof -
  from constructEggs_Inr(3) [OF assms(1)] assms(2) obtain g0 c0 g1 c1 where
    body: "eggBody 4 gachaType hatchWaveCount cat False 0
             (fst (getIDBoundarys 0)) (snd (getIDBoundarys 0)) True g0 c0 = Inr (e, g1, c1)"
    by auto
  from eggBody_Inr(1) [OF body] obtain g2 where
    "generateRandomID (fst (getIDBoundarys 0)) (snd (getIDBoundarys 0)) True g0
     = Inr (egg_id e, g2)"
    by blast
  then have id: "generateRandomID 255 1073741823 True g0 = Inr (egg_id e, g2)"
    by (simp add: getIDBoundarys_eq)
  have "(255::int) \<le> 1073741823" by simp
  from manaphy_id_aligned [OF this, of g0] id
  have "204 dvd egg_id e" and "255 div 204 * 204 \<le> egg_id e"
    and "egg_id e \<le> 1073741823 div 204 * 204"
    by auto
  then show ?thesis by (simp add: getIDBoundarys_eq)
qed

theorem constructEggs_manaphy_id_witness:
  "constructEggs 4 2 5 1 [] False 0 (5 ## 1 ## sconst 0) (sconst 1000)
   = Inr [\<lparr>egg_id = 1224, egg_gachaType = 2, egg_hatchWaves = 5, egg_timestamp = 1000,
            egg_isShiny = False, egg_variantTier = 0, egg_sourceType = 2,
            egg_species = None, egg_tier = Some 4\<rparr>]
   \<and> (204::int) dvd 1224 \<and> (204::int) \<le> 1224 \<and> (1224::int) \<le> snd (getIDBoundarys 0)"
proof -
  have run: "constructEggs 4 2 5 1 [] False 0 (5 ## 1 ## sconst 0) (sconst 1000)
   = Inr [\<lparr>egg_id = 1224, egg_gachaType = 2, egg_hatchWaves = 5, egg_timestamp = 1000,
            egg_isShiny = False, egg_variantTier = 0, egg_sourceType = 2,
            egg_species = None, egg_tier = Some 4\<rparr>]"
    by (simp add: run_defs)
  from constructEggs_manaphy_id [OF run,
      of "\<lparr>egg_id = 1224, egg_gachaType = 2, egg_hatchWaves = 5, egg_timestamp = 1000,
            egg_isShiny = False, egg_variantTier = 0, egg_sourceType = 2,
            egg_species = None, egg_tier = Some 4\<rparr>"] run
  show ?thesis by simp
qed

text \<open>The clock reaches the result through the timestamps only.\<close>

lemma eggLoop_clock_erase:
  assumes "map (\<lambda>e. e\<lparr>egg_timestamp := 0\<rparr>) acc = map (\<lambda>e. e\<lparr>egg_timestamp := 0\<rparr>) acc'"
  shows "(case eggLoop n tier gachaType hatchWaveCount cat isShiny variantTier start end' isManaphy
                 acc g c of
            Inl x \<Rightarrow> Inl x
          | Inr (eggs, g', c') \<Rightarrow> Inr (map (\<lambda>e. e\<lparr>egg_timestamp := 0\<rparr>) eggs))
       = (case eggLoop n tier gachaType hatchWaveCount cat isShiny variantTier start end' isManaphy
                 acc' g d of
            Inl x \<Rightarrow> Inl x
          | Inr (eggs, g', c') \<Rightarrow> Inr (map (\<lambda>e. e\<lparr>egg_timestamp := 0\<rparr>) eggs))"
  using assms
proof (induction n arbitrary: acc acc' g c d)
  case 0
  then show ?case by simp
next
  case (Suc n)
  let ?base = "eggBody tier gachaType hatchWaveCount cat isShiny variantTier start end' isManaphy
                 g (sconst 0)"
  note at_c = eggBody_clock [of tier gachaType hatchWaveCount cat isShiny variantTier start end'
      isManaphy g c]
  note at_d = eggBody_clock [of tier gachaType hatchWaveCount cat isShiny variantTier start end'
      isManaphy g d]
  show ?case
  proof (cases ?base)
    case (Inl x)
    then show ?thesis using at_c at_d by simp
  next
    case (Inr triple)
    obtain e0 g1 c1 where triple: "triple = (e0, g1, c1)" by (cases triple)
    have bc: "eggBody tier gachaType hatchWaveCount cat isShiny variantTier start end' isManaphy
                g c = Inr (e0\<lparr>egg_timestamp := shd c\<rparr>, g1, stl c)"
      using at_c Inr triple by simp
    have bd: "eggBody tier gachaType hatchWaveCount cat isShiny variantTier start end' isManaphy
                g d = Inr (e0\<lparr>egg_timestamp := shd d\<rparr>, g1, stl d)"
      using at_d Inr triple by simp
    have accs: "map (\<lambda>e. e\<lparr>egg_timestamp := 0\<rparr>) (acc @ [e0\<lparr>egg_timestamp := shd c\<rparr>])
              = map (\<lambda>e. e\<lparr>egg_timestamp := 0\<rparr>) (acc' @ [e0\<lparr>egg_timestamp := shd d\<rparr>])"
      using Suc.prems by simp
    show ?thesis using Suc.IH [OF accs, of g1 "stl c" "stl d"] by (simp add: bc bd)
  qed
qed

lemma eggLoop_same_clock:
  assumes "stake n c = stake n d"
  shows "(case eggLoop n tier gachaType hatchWaveCount cat isShiny variantTier start end' isManaphy
                 acc g c of
            Inl x \<Rightarrow> Inl x
          | Inr (eggs, g', c') \<Rightarrow> Inr eggs)
       = (case eggLoop n tier gachaType hatchWaveCount cat isShiny variantTier start end' isManaphy
                 acc g d of
            Inl x \<Rightarrow> Inl x
          | Inr (eggs, g', c') \<Rightarrow> Inr eggs)"
  using assms
proof (induction n arbitrary: acc g c d)
  case 0
  then show ?case by simp
next
  case (Suc n)
  from Suc.prems have hd: "shd c = shd d" and tl: "stake n (stl c) = stake n (stl d)"
    by simp_all
  let ?base = "eggBody tier gachaType hatchWaveCount cat isShiny variantTier start end' isManaphy
                 g (sconst 0)"
  note at_c = eggBody_clock [of tier gachaType hatchWaveCount cat isShiny variantTier start end'
      isManaphy g c]
  note at_d = eggBody_clock [of tier gachaType hatchWaveCount cat isShiny variantTier start end'
      isManaphy g d]
  show ?case
  proof (cases ?base)
    case (Inl x)
    then show ?thesis using at_c at_d by simp
  next
    case (Inr triple)
    obtain e0 g1 c1 where triple: "triple = (e0, g1, c1)" by (cases triple)
    have bc: "eggBody tier gachaType hatchWaveCount cat isShiny variantTier start end' isManaphy
                g c = Inr (e0\<lparr>egg_timestamp := shd c\<rparr>, g1, stl c)"
      using at_c Inr triple by simp
    have bd: "eggBody tier gachaType hatchWaveCount cat isShiny variantTier start end' isManaphy
                g d = Inr (e0\<lparr>egg_timestamp := shd c\<rparr>, g1, stl d)"
      using at_d Inr triple hd by simp
    show ?thesis using Suc.IH [OF tl, of _ g1] by (simp add: bc bd)
  qed
qed

text \<open>
  C3, as stated, fails: two calls with the same random source and the same arguments
  that read different clock values return records with different \<^verbatim>\<open>timestamp\<close> fields.
\<close>

theorem constructEggs_clock_counterexample:
  "constructEggs 0 0 0 1 [] False 0 (sconst 1) (sconst 1000)
   = Inr [\<lparr>egg_id = 256, egg_gachaType = 0, egg_hatchWaves = 0, egg_timestamp = 1000,
            egg_isShiny = False, egg_variantTier = 0, egg_sourceType = 0,
            egg_species = None, egg_tier = Some 0\<rparr>]
   \<and> constructEggs 0 0 0 1 [] False 0 (sconst 1) (sconst 2000)
   = Inr [\<lparr>egg_id = 256, egg_gachaType = 0, egg_hatchWaves = 0, egg_timestamp = 2000,
            egg_isShiny = False, egg_variantTier = 0, egg_sourceType = 0,
            egg_species = None, egg_tier = Some 0\<rparr>]
   \<and> constructEggs 0 0 0 1 [] False 0 (sconst 1) (sconst 1000)
     \<noteq> constructEggs 0 0 0 1 [] False 0 (sconst 1) (sconst 2000)"
  by (simp add: run_defs)

text \<open>
  C3, amended: two calls with the same random source and the same arguments have the
  same outcome (the same exception, or lists equal in every field of every record) up
  to the \<^verbatim>\<open>timestamp\<close> fields, whatever the clock shows; and when both calls read
  the same clock values, one per record, their outcomes are equal in every field.
\<close>

theorem constructEggs_deterministic:
  "without_timestamps
     (constructEggs tier gachaType hatchWaveCount eggAmount cat isShiny variantTier g c)
   = without_timestamps
       (constructEggs tier gachaType hatchWaveCount eggAmount cat isShiny variantTier g d)
   \<and> (stake (nat eggAmount) c = stake (nat eggAmount) d \<longrightarrow>
        constructEggs tier gachaType hatchWaveCount eggAmount cat isShiny variantTier g c
        = constructEggs tier gachaType hatchWaveCount eggAmount cat isShiny variantTier g d)"
proof -
  obtain start end' where se: "getIDBoundarys (if tier = 4 then 0 else tier) = (start, end')"
    by (cases "getIDBoundarys (if tier = 4 then 0 else tier)")
  let ?loop = "eggLoop (nat eggAmount) tier gachaType hatchWaveCount cat isShiny variantTier
                 start end' (tier = 4) [] g"
  have c: "constructEggs tier gachaType hatchWaveCount eggAmount cat isShiny variantTier g x
           = (case ?loop x of Inl e \<Rightarrow> Inl e | Inr (eggs, g', c') \<Rightarrow> Inr eggs)" for x
    by (simp add: constructEggs_def se)
  have w: "without_timestamps
             (constructEggs tier gachaType hatchWaveCount eggAmount cat isShiny variantTier g x)
           = (case ?loop x of
                Inl e \<Rightarrow> Inl e
              | Inr (eggs, g', c') \<Rightarrow> Inr (map (\<lambda>e. e\<lparr>egg_timestamp := 0\<rparr>) eggs))" for x
    by (simp add: c without_timestamps_def split: sum.splits)
  have one: "without_timestamps
     (constructEggs tier gachaType hatchWaveCount eggAmount cat isShiny variantTier g c)
   = without_timestamps
       (constructEggs tier gachaType hatchWaveCount eggAmount cat isShiny variantTier g d)"
    unfolding w by (rule eggLoop_clock_erase) simp
  have two: "constructEggs tier gachaType hatchWaveCount eggAmount cat isShiny variantTier g c
        = constructEggs tier gachaType hatchWaveCount eggAmount cat isShiny variantTier g d"
    if "stake (nat eggAmount) c = stake (nat eggAmount) d"
    unfolding c using that by (rule eggLoop_same_clock)
  show ?thesis using one two by simp
qed

theorem constructEggs_deterministic_witness:
  "stake (nat 1) (1000 ## sconst 1) = stake (nat 1) (1000 ## sconst (2::int))
   \<and> constructEggs 0 0 0 1 [] False 0 (sconst 1) (1000 ## sconst 1)
     = constructEggs 0 0 0 1 [] False 0 (sconst 1) (1000 ## sconst 2)
   \<and> without_timestamps (constructEggs 0 0 0 1 [] False 0 (sconst 1) (sconst 1000))
     = without_timestamps (constructEggs 0 0 0 1 [] False 0 (sconst 1) (sconst 2000))"
proof -
  have "stake (nat 1) (1000 ## sconst 1) = stake (nat 1) (1000 ## sconst (2::int))"
    by simp
  then show ?thesis
    using constructEggs_deterministic [of 0 0 0 1 "[]" False 0 "sconst 1" "1000 ## sconst 1"
        "1000 ## sconst 2"]
      constructEggs_deterministic [of 0 0 0 1 "[]" False 0 "sconst 1" "sconst 1000"
        "sconst 2000"]
    by simp
qed

end
